theory Spec2Isabelle
  imports Main "HOL-Library.AList"
begin

section \<open>ComfyUI image and audio to video: the orchestration core\<close>

text \<open>
  A shallow embedding of \<^verbatim>\<open>execute\<close> of
  \<^verbatim>\<open>src/nodes/ComfyUI/ComfyuiImageAudioToVideo.node.ts\<close>.

  Conventions of the embedding:
  \<^item> a JavaScript object is an association list in the enumeration order of
    \<^verbatim>\<open>Object.values\<close>; a property lookup \<^verbatim>\<open>o[k]\<close> is \<open>map_of\<close> on the object's own
    properties; an assignment \<^verbatim>\<open>o[k] = v\<close> is \<open>AList.update\<close> (an existing key keeps
    its place, a new key goes last);
  \<^item> a value that came out of \<^verbatim>\<open>JSON.parse\<close> is never \<^verbatim>\<open>undefined\<close>, so
    \<^verbatim>\<open>o.k !== undefined\<close> is \<open>map_of o k \<noteq> None\<close>;
  \<^item> every \<^verbatim>\<open>throw new NodeApiError\<close> of the source is a constructor of \<open>error\<close>, named
    after the failure of the specification it stands for; the outer \<^verbatim>\<open>catch\<close> only
    prefixes the message, so it keeps the constructor;
  \<^item> the in-memory graph is threaded through the patch steps as explicit state, and is
    returned also when a step fails;
  \<^item> the backend is a record of response functions, and every request issued is
    appended to a trace. The request helper is taken to answer: a rejected request is
    not part of this model, nor are the request headers and the waits between requests;
  \<^item> numbers are integers: the timeout in minutes is an \<open>int\<close>.
\<close>

subsection \<open>Values and strings\<close>

datatype jval =
    JNull
  | JBool bool
  | JNum int
  | JStr string
  | JArr "jval list"
  | JObj "(string \<times> jval) list"

type_synonym buffer = "nat list"

text \<open>\<^verbatim>\<open>String.prototype.startsWith\<close> and \<^verbatim>\<open>endsWith\<close>.\<close>

definition startsWith :: "string \<Rightarrow> string \<Rightarrow> bool" where
  "startsWith s p = (take (length p) s = p)"

definition endsWith :: "string \<Rightarrow> string \<Rightarrow> bool" where
  "endsWith s p = (length p \<le> length s \<and> drop (length s - length p) s = p)"

text \<open>\<^verbatim>\<open>Array.prototype.find\<close>, returning the position of the element found: the
  position stands for the reference the source then mutates.\<close>

fun findIndex :: "('a \<Rightarrow> bool) \<Rightarrow> 'a list \<Rightarrow> nat option" where
  "findIndex P [] = None"
| "findIndex P (x # xs) = (if P x then Some 0 else map_option Suc (findIndex P xs))"

subsection \<open>The graph\<close>

text \<open>\<^verbatim>\<open>interface ComfyUINode\<close>. \<open>inputs = None\<close> is a node whose \<^verbatim>\<open>inputs\<close> is
  missing or falsy (the source tests \<^verbatim>\<open>node.inputs &&\<close>).\<close>

record ComfyUINode =
  inputs :: "(string \<times> jval) list option"
  class_type :: string
  meta_title :: "string option"

text \<open>\<^verbatim>\<open>interface ComfyUIWorkflow\<close>: node identifier to node.\<close>

type_synonym ComfyUIWorkflow = "(string \<times> ComfyUINode) list"

text \<open>\<^verbatim>\<open>interface ImageInfo\<close>, the handle an upload returns.\<close>

record ImageInfo =
  name :: string
  subfolder :: string
  type :: string

datatype error =
    NoBinaryData          \<comment> \<open>No binary data found in property ... and no image alternatives found\<close>
  | InvalidInputMedia     \<comment> \<open>Invalid media type / Provided audio binary property is not audio\<close>
  | MalformedGraph        \<comment> \<open>Invalid workflow JSON / Invalid workflow structure\<close>
  | MissingImageNode      \<comment> \<open>No LoadImage node found in the workflow\<close>
  | MissingAudioNode      \<comment> \<open>Audio binary provided but no LoadAudio node found\<close>
  | SubmissionRejected    \<comment> \<open>Failed to get prompt ID from ComfyUI\<close>
  | GenerationFailed      \<comment> \<open>Video generation failed\<close>
  | GenerationTimeout     \<comment> \<open>Video generation timeout after ... minutes\<close>
  | NoMediaOutputs        \<comment> \<open>No media outputs found in results\<close>
  | NoVideoOutputs        \<comment> \<open>No video outputs found in results\<close>
  | OutputNotFound        \<comment> \<open>Video file not found at ...\<close>
  | TypeError             \<comment> \<open>a property written on a missing \<^verbatim>\<open>inputs\<close> object\<close>

text \<open>\<^verbatim>\<open>node.inputs.k\<close> read through a possibly missing \<^verbatim>\<open>inputs\<close>.\<close>

definition inputValue :: "ComfyUINode \<Rightarrow> string \<Rightarrow> jval option" where
  "inputValue n k = (case inputs n of None \<Rightarrow> None | Some ins \<Rightarrow> map_of ins k)"

text \<open>\<^verbatim>\<open>node.inputs.k = v\<close>.\<close>

definition setInput :: "string \<Rightarrow> jval \<Rightarrow> ComfyUINode \<Rightarrow> error + ComfyUINode" where
  "setInput k v n =
     (case inputs n of
        None \<Rightarrow> Inl TypeError
      | Some ins \<Rightarrow> Inr (n\<lparr>inputs := Some (AList.update k v ins)\<rparr>))"

text \<open>The predicate of the first \<^verbatim>\<open>find\<close>:
  \<^verbatim>\<open>node.class_type === 'LoadImage' && node.inputs && node.inputs.image !== undefined\<close>.\<close>

definition isLoadImageNode :: "ComfyUINode \<Rightarrow> bool" where
  "isLoadImageNode n =
     (class_type n = ''LoadImage'' \<and> inputs n \<noteq> None \<and> inputValue n ''image'' \<noteq> None)"

text \<open>The predicate of the second \<^verbatim>\<open>find\<close>:
  \<^verbatim>\<open>node.class_type === 'LoadAudio' && node.inputs &&
  (node.inputs.audio !== undefined || node.inputs.filename !== undefined)\<close>.\<close>

definition isLoadAudioNode :: "ComfyUINode \<Rightarrow> bool" where
  "isLoadAudioNode n =
     (class_type n = ''LoadAudio'' \<and> inputs n \<noteq> None \<and>
      (inputValue n ''audio'' \<noteq> None \<or> inputValue n ''filename'' \<noteq> None))"

text \<open>The mutation of the node found, at its position in the graph.\<close>

definition updateNode ::
  "nat \<Rightarrow> (ComfyUINode \<Rightarrow> error + ComfyUINode) \<Rightarrow> ComfyUIWorkflow
     \<Rightarrow> (error + unit) \<times> ComfyUIWorkflow" where
  "updateNode i f w =
     (case f (snd (w ! i)) of
        Inl e \<Rightarrow> (Inl e, w)
      | Inr n' \<Rightarrow> (Inr (), w[i := (fst (w ! i), n')]))"

text \<open>Find and update the LoadImage node.\<close>

definition patchImage ::
  "ImageInfo \<Rightarrow> ComfyUIWorkflow \<Rightarrow> (error + unit) \<times> ComfyUIWorkflow" where
  "patchImage imageInfo w =
     (case findIndex isLoadImageNode (map snd w) of
        None \<Rightarrow> (Inl MissingImageNode, w)
      | Some i \<Rightarrow> updateNode i (setInput ''image'' (JStr (name imageInfo))) w)"

text \<open>The three-way write of the audio name:
  \<^verbatim>\<open>if (inputs.audio !== undefined) ... else if (inputs.filename !== undefined) ... else ...\<close>.\<close>

definition setAudioInput :: "string \<Rightarrow> ComfyUINode \<Rightarrow> error + ComfyUINode" where
  "setAudioInput audioName n =
     (if inputs n = None then Inl TypeError
      else if inputValue n ''audio'' \<noteq> None then setInput ''audio'' (JStr audioName) n
      else if inputValue n ''filename'' \<noteq> None then setInput ''filename'' (JStr audioName) n
      else setInput ''audio'' (JStr audioName) n)"

text \<open>Find and update the LoadAudio node if audio was uploaded: \<^verbatim>\<open>if (audioInfo) { ... }\<close>.\<close>

definition patchAudio ::
  "ImageInfo option \<Rightarrow> ComfyUIWorkflow \<Rightarrow> (error + unit) \<times> ComfyUIWorkflow" where
  "patchAudio audioInfo w =
     (case audioInfo of
        None \<Rightarrow> (Inr (), w)
      | Some a \<Rightarrow>
          (case findIndex isLoadAudioNode (map snd w) of
             None \<Rightarrow> (Inl MissingAudioNode, w)
           | Some i \<Rightarrow> updateNode i (setAudioInput (name a)) w))"

text \<open>The two patches in the order of the source: the audio patch is reached only when
  the image patch has not thrown.\<close>

definition patchWorkflow ::
  "ImageInfo \<Rightarrow> ImageInfo option \<Rightarrow> ComfyUIWorkflow \<Rightarrow> (error + unit) \<times> ComfyUIWorkflow" where
  "patchWorkflow imageInfo audioInfo w =
     (case patchImage imageInfo w of
        (Inl e, w') \<Rightarrow> (Inl e, w')
      | (Inr _, w') \<Rightarrow> patchAudio audioInfo w')"

subsection \<open>Input media\<close>

text \<open>One entry of \<^verbatim>\<open>items[0].binary\<close>; \<open>mimeType = None\<close> is a missing MIME type.\<close>

record IBinaryData =
  data :: buffer
  mimeType :: "string option"
  fileName :: "string option"

text \<open>\<^verbatim>\<open>items[0].binary\<close>, \<open>None\<close> when the item carries no binary data.\<close>

type_synonym binary = "(string \<times> IBinaryData) list option"

text \<open>\<^verbatim>\<open>items[0].binary?.[key]\<close>.\<close>

definition binaryProperty :: "binary \<Rightarrow> string \<Rightarrow> IBinaryData option" where
  "binaryProperty b key = (case b of None \<Rightarrow> None | Some props \<Rightarrow> map_of props key)"

text \<open>\<^verbatim>\<open>Object.keys(items[0].binary || {})\<close>.\<close>

definition binaryProperties :: "binary \<Rightarrow> string list" where
  "binaryProperties b = (case b of None \<Rightarrow> [] | Some props \<Rightarrow> map fst props)"

text \<open>The workflow parameter, as \<^verbatim>\<open>JSON.parse\<close> and the structure check see it: text
  that does not parse, a value that is not an object (or is null), or a graph.\<close>

datatype workflow_json = InvalidJson | NotAnObject | Workflow ComfyUIWorkflow

record parameters =
  workflow :: workflow_json
  inputType :: string
  inputImage :: string
  binaryPropertyName :: string
  audioBinaryPropertyName :: string
  timeout :: int

subsection \<open>Requests and the backend\<close>

datatype form_part = FilePart buffer string | TextPart string

text \<open>The requests of the source, one constructor for each call of
  \<^verbatim>\<open>this.helpers.request\<close>, with the URL and the body it sends.\<close>

datatype request =
    GetSystemStats string
  | GetImage string
  | PostUpload string "(string \<times> form_part) list"
  | PostPrompt string ComfyUIWorkflow
  | GetHistory string
  | GetView string

record execution_status =
  completed :: bool
  status_str :: string

text \<open>One file of a node's output, and the same with the \<^verbatim>\<open>url\<close> the source adds.\<close>

record media =
  filename :: string
  subfolder :: "string option"
  type :: string

record media_output = media +
  url :: string

text \<open>One node's output group; \<open>None\<close> is a missing (falsy) list, and a list that is
  present is truthy also when it is empty.\<close>

record node_output =
  images :: "media list option"
  gifs :: "media list option"

text \<open>\<^verbatim>\<open>history[promptId]\<close>; \<open>status = None\<close> is \<^verbatim>\<open>status === undefined\<close>.\<close>

record prompt_result =
  status :: "execution_status option"
  outputs :: "(string \<times> node_output) list"

text \<open>What the outside answers: the image behind a URL, the decoding of base64 text,
  the parsed answer to an upload, the \<^verbatim>\<open>prompt_id\<close> of a submission (\<open>None\<close> when the
  field is missing), \<^verbatim>\<open>history[promptId]\<close> in the answer to status query number \<open>k\<close>
  (counted from 0), and the status code and body behind a view URL.\<close>

record world =
  imageAt :: "string \<Rightarrow> buffer"
  fromBase64 :: "string \<Rightarrow> buffer"
  uploaded :: "(string \<times> form_part) list \<Rightarrow> ImageInfo"
  prompt_id :: "ComfyUIWorkflow \<Rightarrow> string option"
  history :: "nat \<Rightarrow> prompt_result option"
  view :: "string \<Rightarrow> nat \<times> buffer"

text \<open>What \<^verbatim>\<open>execute\<close> returns: \<^verbatim>\<open>json.mimeType\<close> and \<^verbatim>\<open>binary.data.mimeType\<close> are one
  variable of the source, as are the two file names and the two copies of the bytes
  (kept here undecoded; the source returns them in base64).\<close>

record video_result =
  res_mimeType :: string
  res_fileExtension :: string
  res_fileName :: string
  res_data :: buffer
  res_status :: execution_status

subsection \<open>Preparing and uploading the inputs\<close>

text \<open>\<^verbatim>\<open>binaryProperties.find(key => items[0].binary![key].mimeType?.startsWith('image/'))\<close>.\<close>

definition hasImageMime :: "binary \<Rightarrow> string \<Rightarrow> bool" where
  "hasImageMime b key =
     (case binaryProperty b key of
        None \<Rightarrow> False
      | Some d \<Rightarrow> (case mimeType d of None \<Rightarrow> False | Some m \<Rightarrow> startsWith m ''image/''))"

definition prepareImage ::
  "world \<Rightarrow> parameters \<Rightarrow> binary \<Rightarrow> request list \<times> (error + buffer)" where
  "prepareImage wd ps b =
     (if inputType ps = ''url'' then
        ([GetImage (inputImage ps)], Inr (imageAt wd (inputImage ps)))
      else if inputType ps = ''binary'' then
        (case (if binaryProperty b (binaryPropertyName ps) = None
               then find (hasImageMime b) (binaryProperties b)
               else Some (binaryPropertyName ps)) of
           None \<Rightarrow> ([], Inl NoBinaryData)
         | Some actualPropertyName \<Rightarrow>
             (case binaryProperty b actualPropertyName of
                None \<Rightarrow> ([], Inl TypeError)
              | Some d \<Rightarrow>
                  (case mimeType d of
                     None \<Rightarrow> ([], Inl InvalidInputMedia)
                   | Some m \<Rightarrow>
                       if m = [] \<or> \<not> startsWith m ''image/''
                       then ([], Inl InvalidInputMedia)
                       else ([], Inr (data d)))))
      else ([], Inr (fromBase64 wd (inputImage ps))))"

text \<open>The form of \<^verbatim>\<open>uploadBuffer\<close>, in the order of its three \<^verbatim>\<open>fd.append\<close>.\<close>

definition uploadForm :: "buffer \<Rightarrow> string \<Rightarrow> (string \<times> form_part) list" where
  "uploadForm buf fname =
     [(''image'', FilePart buf fname), (''subfolder'', TextPart []),
      (''overwrite'', TextPart ''true'')]"

definition uploadBuffer ::
  "world \<Rightarrow> string \<Rightarrow> buffer \<Rightarrow> string \<Rightarrow> request list \<times> ImageInfo" where
  "uploadBuffer wd apiUrl buf fname =
     ([PostUpload (apiUrl @ ''/upload/image'') (uploadForm buf fname)],
      uploaded wd (uploadForm buf fname))"

text \<open>Optional audio upload: \<^verbatim>\<open>if (audioBinaryPropertyName) { ... }\<close>, with
  \<^verbatim>\<open>audioBinary.mimeType || ''\<close>.\<close>

definition uploadAudio ::
  "world \<Rightarrow> string \<Rightarrow> string \<Rightarrow> binary \<Rightarrow> request list \<times> (error + ImageInfo option)" where
  "uploadAudio wd apiUrl propertyName b =
     (if propertyName = [] then ([], Inr None)
      else
        (case binaryProperty b propertyName of
           None \<Rightarrow> ([], Inr None)
         | Some audioBinary \<Rightarrow>
             (if \<not> startsWith (case mimeType audioBinary of None \<Rightarrow> [] | Some m \<Rightarrow> m) ''audio/''
              then ([], Inl InvalidInputMedia)
              else
                (case uploadBuffer wd apiUrl (data audioBinary) ''input.mp3'' of
                   (rs, info) \<Rightarrow> (rs, Inr (Some info))))))"

subsection \<open>Resolving the output\<close>

text \<open>\<^verbatim>\<open>nodeOutput.images || nodeOutput.gifs || []\<close>: the images when the node has an
  images list, otherwise the gifs when it has a gifs list, otherwise nothing.\<close>

definition nodeMedia :: "node_output \<Rightarrow> media list" where
  "nodeMedia nodeOutput =
     (case images nodeOutput of
        Some xs \<Rightarrow> xs
      | None \<Rightarrow> (case gifs nodeOutput of Some ys \<Rightarrow> ys | None \<Rightarrow> []))"

text \<open>\<^verbatim>\<open>Object.values(promptResult.outputs).flatMap(...)\<close>.\<close>

definition candidates :: "(string \<times> node_output) list \<Rightarrow> media list" where
  "candidates outs = concat (map nodeMedia (map snd outs))"

definition keptKind :: "media \<Rightarrow> bool" where
  "keptKind img = (type img = ''output'' \<or> type img = ''temp'')"

text \<open>\<^verbatim>\<open>{...img, url: `${apiUrl}/view?filename=...&subfolder=${img.subfolder || ''}&type=...`}\<close>.\<close>

definition withUrl :: "string \<Rightarrow> media \<Rightarrow> media_output" where
  "withUrl apiUrl img =
     \<lparr>filename = filename img, subfolder = subfolder img, type = type img,
      url = apiUrl @ ''/view?filename='' @ filename img @ ''&subfolder='' @
            (case subfolder img of None \<Rightarrow> [] | Some s \<Rightarrow> s) @ ''&type='' @ type img\<rparr>"

definition mediaOutputs :: "string \<Rightarrow> (string \<times> node_output) list \<Rightarrow> media_output list" where
  "mediaOutputs apiUrl outs = map (withUrl apiUrl) (filter keptKind (candidates outs))"

definition isVideoName :: "string \<Rightarrow> bool" where
  "isVideoName f = (endsWith f ''.webp'' \<or> endsWith f ''.mp4'' \<or> endsWith f ''.gif'')"

definition resolveOutputs ::
  "string \<Rightarrow> (string \<times> node_output) list \<Rightarrow> error + media_output" where
  "resolveOutputs apiUrl outs =
     (if mediaOutputs apiUrl outs = [] then Inl NoMediaOutputs
      else
        (case filter (\<lambda>output. isVideoName (filename output)) (mediaOutputs apiUrl outs) of
           [] \<Rightarrow> Inl NoVideoOutputs
         | videoOutput # _ \<Rightarrow> Inr videoOutput))"

text \<open>Determine MIME type based on file extension: the pair \<^verbatim>\<open>(mimeType, fileExtension)\<close>.\<close>

definition mimeTypeFor :: "string \<Rightarrow> string \<times> string" where
  "mimeTypeFor f =
     (if endsWith f ''.mp4'' then (''video/mp4'', ''mp4'')
      else if endsWith f ''.gif'' then (''image/gif'', ''gif'')
      else (''image/webp'', ''webp''))"

definition videoResult :: "media_output \<Rightarrow> buffer \<Rightarrow> execution_status \<Rightarrow> video_result" where
  "videoResult videoOutput body st =
     \<lparr>res_mimeType = fst (mimeTypeFor (filename videoOutput)),
      res_fileExtension = snd (mimeTypeFor (filename videoOutput)),
      res_fileName = filename videoOutput,
      res_data = body,
      res_status = st\<rparr>"

subsection \<open>The poll loop\<close>

datatype tick = Continue | Finished "error + video_result"

text \<open>The body of the loop after the status query: what it does with
  \<^verbatim>\<open>history[promptId]\<close>, and the request it may add.\<close>

definition checkStatus ::
  "world \<Rightarrow> string \<Rightarrow> prompt_result option \<Rightarrow> request list \<times> tick" where
  "checkStatus wd apiUrl promptResult =
     (case promptResult of
        None \<Rightarrow> ([], Continue)
      | Some pr \<Rightarrow>
          (case status pr of
             None \<Rightarrow> ([], Continue)
           | Some st \<Rightarrow>
               if completed st then
                 (if status_str st = ''error'' then ([], Finished (Inl GenerationFailed))
                  else
                    (case resolveOutputs apiUrl (outputs pr) of
                       Inl e \<Rightarrow> ([], Finished (Inl e))
                     | Inr videoOutput \<Rightarrow>
                         ([GetView (url videoOutput)],
                          Finished
                            (if fst (view wd (url videoOutput)) = 404 then Inl OutputNotFound
                             else Inr (videoResult videoOutput
                                         (snd (view wd (url videoOutput))) st)))))
               else ([], Continue)))"

text \<open>\<^verbatim>\<open>while (attempts < maxAttempts) { attempts++; ... }\<close>: the status query issued when
  the counter stands at \<open>attempts\<close> is query number \<open>attempts\<close>.\<close>

function pollLoop ::
  "world \<Rightarrow> string \<Rightarrow> string \<Rightarrow> int \<Rightarrow> nat \<Rightarrow> request list \<times> (error + video_result)" where
  "pollLoop wd apiUrl promptId maxAttempts attempts =
     (if int attempts < maxAttempts then
        (case checkStatus wd apiUrl (history wd attempts) of
           (rs, Continue) \<Rightarrow>
             (case pollLoop wd apiUrl promptId maxAttempts (Suc attempts) of
                (rs', r) \<Rightarrow> (GetHistory (apiUrl @ ''/history/'' @ promptId) # rs @ rs', r))
         | (rs, Finished r) \<Rightarrow> (GetHistory (apiUrl @ ''/history/'' @ promptId) # rs, r))
      else ([], Inl GenerationTimeout))"
  by pat_completeness auto
termination
  by (relation "measure (\<lambda>(wd, apiUrl, promptId, maxAttempts, attempts).
        nat (maxAttempts - int attempts))") auto

subsection \<open>The whole execution\<close>

text \<open>Queue video generation, then poll: \<^verbatim>\<open>!response.prompt_id\<close> holds of a missing
  field and of the empty string; \<^verbatim>\<open>maxAttempts = 60 * timeout\<close>.\<close>

definition submitAndPoll ::
  "world \<Rightarrow> string \<Rightarrow> int \<Rightarrow> ComfyUIWorkflow \<Rightarrow> request list \<times> (error + video_result)" where
  "submitAndPoll wd apiUrl tmo w =
     (case prompt_id wd w of
        None \<Rightarrow> ([PostPrompt (apiUrl @ ''/prompt'') w], Inl SubmissionRejected)
      | Some promptId \<Rightarrow>
          if promptId = [] then ([PostPrompt (apiUrl @ ''/prompt'') w], Inl SubmissionRejected)
          else
            (case pollLoop wd apiUrl promptId (60 * tmo) 0 of
               (rs, r) \<Rightarrow> (PostPrompt (apiUrl @ ''/prompt'') w # rs, r)))"

text \<open>Parse and modify the workflow, then submit it.\<close>

definition patchAndRun ::
  "world \<Rightarrow> string \<Rightarrow> parameters \<Rightarrow> ImageInfo \<Rightarrow> ImageInfo option
     \<Rightarrow> request list \<times> (error + video_result)" where
  "patchAndRun wd apiUrl ps imageInfo audioInfo =
     (case workflow ps of
        InvalidJson \<Rightarrow> ([], Inl MalformedGraph)
      | NotAnObject \<Rightarrow> ([], Inl MalformedGraph)
      | Workflow workflowData \<Rightarrow>
          (case patchWorkflow imageInfo audioInfo workflowData of
             (Inl e, _) \<Rightarrow> ([], Inl e)
           | (Inr _, patched) \<Rightarrow> submitAndPoll wd apiUrl (timeout ps) patched))"

text \<open>\<^verbatim>\<open>execute\<close>: the requests it issues, in order, and its outcome.\<close>

definition execute ::
  "world \<Rightarrow> string \<Rightarrow> parameters \<Rightarrow> binary \<Rightarrow> request list \<times> (error + video_result)" where
  "execute wd apiUrl ps b =
     (case prepareImage wd ps b of
        (rs1, Inl e) \<Rightarrow> (GetSystemStats (apiUrl @ ''/system_stats'') # rs1, Inl e)
      | (rs1, Inr imageBuffer) \<Rightarrow>
          (case uploadBuffer wd apiUrl imageBuffer ''input.png'' of
             (rs2, imageInfo) \<Rightarrow>
               (case uploadAudio wd apiUrl (audioBinaryPropertyName ps) b of
                  (rs3, Inl e) \<Rightarrow>
                    (GetSystemStats (apiUrl @ ''/system_stats'') # rs1 @ rs2 @ rs3, Inl e)
                | (rs3, Inr audioInfo) \<Rightarrow>
                    (case patchAndRun wd apiUrl ps imageInfo audioInfo of
                       (rs4, r) \<Rightarrow>
                         (GetSystemStats (apiUrl @ ''/system_stats'') # rs1 @ rs2 @ rs3 @ rs4,
                          r)))))"

text \<open>The number of status queries in a trace.\<close>

fun isStatusQuery :: "request \<Rightarrow> bool" where
  "isStatusQuery (GetHistory _) = True"
| "isStatusQuery _ = False"

definition statusQueries :: "request list \<Rightarrow> nat" where
  "statusQueries rs = length (filter isStatusQuery rs)"

subsection \<open>Observations on traces and outcomes\<close>

text \<open>A status answer in which the loop sees a completed job:
  \<^verbatim>\<open>promptResult && promptResult.status !== undefined && promptResult.status.completed\<close>.\<close>

definition completedAt :: "prompt_result option \<Rightarrow> bool" where
  "completedAt promptResult =
     (case promptResult of
        None \<Rightarrow> False
      | Some pr \<Rightarrow> (case status pr of None \<Rightarrow> False | Some st \<Rightarrow> completed st))"


text \<open>The upload requests of a trace, in order.\<close>

fun isUpload :: "request \<Rightarrow> bool" where
  "isUpload (PostUpload _ _) = True"
| "isUpload _ = False"

definition uploadsOf :: "request list \<Rightarrow> request list" where
  "uploadsOf rs = filter isUpload rs"

subsection \<open>The resolution as the specification words it\<close>

text \<open>Following the specification's words, not the source: "flatten every node's output
  group's image-like and animation-like entries across the whole outputs mapping into
  one candidate list". Both lists of a node are taken.\<close>

definition allEntries :: "node_output \<Rightarrow> media list" where
  "allEntries nodeOutput =
     (case images nodeOutput of None \<Rightarrow> [] | Some xs \<Rightarrow> xs) @
     (case gifs nodeOutput of None \<Rightarrow> [] | Some ys \<Rightarrow> ys)"

definition resolveAsStated ::
  "string \<Rightarrow> (string \<times> node_output) list \<Rightarrow> error + media_output" where
  "resolveAsStated apiUrl outs =
     (case filter keptKind (concat (map allEntries (map snd outs))) of
        [] \<Rightarrow> Inl NoMediaOutputs
      | kept \<Rightarrow>
          (case filter (\<lambda>m. isVideoName (filename m)) kept of
             [] \<Rightarrow> Inl NoVideoOutputs
           | m # _ \<Rightarrow> Inr (withUrl apiUrl m)))"

subsection \<open>Concrete inputs\<close>

definition imageHandle :: ImageInfo where
  "imageHandle =
     \<lparr>name = ''input (1).png'', ImageInfo.subfolder = [], ImageInfo.type = ''input''\<rparr>"

definition audioHandle :: ImageInfo where
  "audioHandle =
     \<lparr>name = ''input (2).mp3'', ImageInfo.subfolder = [], ImageInfo.type = ''input''\<rparr>"

text \<open>A LoadImage node without the \<^verbatim>\<open>image\<close> key, the LoadImage node to patch, and a
  LoadAudio node that names its parameter \<^verbatim>\<open>filename\<close>.\<close>

definition exampleGraph :: ComfyUIWorkflow where
  "exampleGraph =
     [(''3'', \<lparr>inputs = Some [(''seed'', JNum 7)], class_type = ''LoadImage'',
              meta_title = Some ''no image key''\<rparr>),
      (''7'', \<lparr>inputs = Some [(''image'', JStr []), (''upload'', JStr ''image'')],
              class_type = ''LoadImage'', meta_title = None\<rparr>),
      (''9'', \<lparr>inputs = Some [(''filename'', JStr ''old.mp3'')], class_type = ''LoadAudio'',
              meta_title = None\<rparr>)]"


text \<open>No node to patch: a LoadImage node without the \<^verbatim>\<open>image\<close> key and a sampler.\<close>

definition noLoaderGraph :: ComfyUIWorkflow where
  "noLoaderGraph =
     [(''3'', \<lparr>inputs = Some [(''seed'', JNum 7)], class_type = ''LoadImage'',
              meta_title = None\<rparr>),
      (''5'', \<lparr>inputs = Some [(''steps'', JNum 20)], class_type = ''KSampler'',
              meta_title = None\<rparr>)]"

text \<open>The graph \<^verbatim>\<open>{"3":{"class_type":"LoadImage","inputs":{"image":""}}}\<close>.\<close>

definition imageOnlyGraph :: ComfyUIWorkflow where
  "imageOnlyGraph =
     [(''3'', \<lparr>inputs = Some [(''image'', JStr [])], class_type = ''LoadImage'',
              meta_title = None\<rparr>)]"

definition pngFile :: media where
  "pngFile = \<lparr>filename = ''a.png'', subfolder = None, type = ''output''\<rparr>"

definition webpFile :: media where
  "webpFile = \<lparr>filename = ''b.webp'', subfolder = None, type = ''output''\<rparr>"

text \<open>One node with an images list and a gifs list; one node with both files among its
  images; one node with the static image only.\<close>

definition pngAndGifsWebp :: "(string \<times> node_output) list" where
  "pngAndGifsWebp = [(''9'', \<lparr>images = Some [pngFile], gifs = Some [webpFile]\<rparr>)]"

definition pngThenWebp :: "(string \<times> node_output) list" where
  "pngThenWebp = [(''9'', \<lparr>images = Some [pngFile, webpFile], gifs = None\<rparr>)]"

definition pngOnly :: "(string \<times> node_output) list" where
  "pngOnly = [(''9'', \<lparr>images = Some [pngFile], gifs = None\<rparr>)]"

definition successRecord :: prompt_result where
  "successRecord =
     \<lparr>status = Some \<lparr>completed = True, status_str = ''success''\<rparr>,
      outputs = [(''12'', \<lparr>images = None,
                           gifs = Some [\<lparr>filename = ''result.webp'', subfolder = Some [],
                                         type = ''output''\<rparr>]\<rparr>)]\<rparr>"

text \<open>A backend that stores every upload under the name \<^verbatim>\<open>input (1).png\<close>, has no
  record at the first status query and a successful one from the second on.\<close>

definition demoWorld :: world where
  "demoWorld =
     \<lparr>imageAt = (\<lambda>u. [137, 80, 78, 71]),
      fromBase64 = (\<lambda>s. [1, 2, 3]),
      uploaded = (\<lambda>form. imageHandle),
      prompt_id = (\<lambda>w. Some ''abc''),
      history = (\<lambda>k. if k = 0 then None else Some successRecord),
      view = (\<lambda>u. (200, [82, 73, 70, 70]))\<rparr>"

text \<open>A backend whose job never completes: no record, a record without status, and a
  status that is not completed, in turn.\<close>

definition pendingWorld :: world where
  "pendingWorld =
     demoWorld\<lparr>history := (\<lambda>k.
        if k mod 3 = 0 then None
        else if k mod 3 = 1 then Some \<lparr>status = None, outputs = []\<rparr>
        else Some \<lparr>status = Some \<lparr>completed = False, status_str = ''running''\<rparr>,
                   outputs = []\<rparr>)\<rparr>"

text \<open>A backend whose job fails: the fourth status answer, and every later one, is
  completed with the label \<^verbatim>\<open>error\<close>.\<close>

definition errorRecord :: prompt_result where
  "errorRecord = \<lparr>status = Some \<lparr>completed = True, status_str = ''error''\<rparr>, outputs = []\<rparr>"

definition errorWorld :: world where
  "errorWorld =
     demoWorld\<lparr>history := (\<lambda>k. if k < 3 then history pendingWorld k else Some errorRecord)\<rparr>"

definition demoBinary :: binary where
  "demoBinary =
     Some [(''data'', \<lparr>data = [1, 2], mimeType = Some ''image/png'',
                      fileName = Some ''cat.png''\<rparr>),
           (''audio'', \<lparr>data = [3, 4], mimeType = Some ''audio/mpeg'',
                       fileName = Some ''song.wav''\<rparr>)]"

text \<open>Inline bytes, no audio, one minute.\<close>

definition demoParams :: parameters where
  "demoParams =
     \<lparr>workflow = Workflow imageOnlyGraph, inputType = ''base64'', inputImage = ''iVBORw=='',
      binaryPropertyName = ''data'', audioBinaryPropertyName = [], timeout = 1\<rparr>"

text \<open>Attached binary with an audio property.\<close>

definition audioParams :: parameters where
  "audioParams =
     \<lparr>workflow = Workflow exampleGraph, inputType = ''binary'', inputImage = [],
      binaryPropertyName = ''data'', audioBinaryPropertyName = ''audio'', timeout = 1\<rparr>"


section \<open>Auxiliary facts\<close>

subsection \<open>Finding a node\<close>

lemma findIndex_None_iff: "findIndex P xs = None \<longleftrightarrow> (\<forall>x\<in>set xs. \<not> P x)"
  by (induction xs) auto

lemma findIndex_SomeD:
  "findIndex P xs = Some i \<Longrightarrow> i < length xs \<and> P (xs ! i) \<and> (\<forall>j<i. \<not> P (xs ! j))"
proof (induction xs arbitrary: i)
  case Nil
  then show ?case by simp
next
  case (Cons x xs)
  show ?case
  proof (cases "P x")
    case True
    with Cons.prems show ?thesis by simp
  next
    case False
    with Cons.prems obtain k where k: "findIndex P xs = Some k" "i = Suc k"
      by auto
    from Cons.IH [OF k(1)] False k(2) show ?thesis
      by (auto simp: less_Suc_eq_0_disj)
  qed
qed

lemma findIndex_unique:
  assumes "i < length xs" "P (xs ! i)" "\<forall>j<length xs. j \<noteq> i \<longrightarrow> \<not> P (xs ! j)"
  shows "findIndex P xs = Some i"
proof (cases "findIndex P xs")
  case None
  with assms(1,2) show ?thesis
    by (auto simp: findIndex_None_iff)
next
  case (Some k)
  from findIndex_SomeD [OF Some] assms(3) have "k = i" by blast
  with Some show ?thesis by simp
qed



subsection \<open>Writing an input\<close>

lemma inputValue_setInput:
  "setInput k v n = Inr n' \<Longrightarrow> inputValue n' k' = (if k' = k then Some v else inputValue n k')"
  by (auto simp: setInput_def inputValue_def update_conv' split: option.splits)

lemma setInput_fields:
  "setInput k v n = Inr n' \<Longrightarrow> class_type n' = class_type n \<and> meta_title n' = meta_title n"
  by (auto simp: setInput_def split: option.splits)

lemma setInput_defined:
  "inputs n \<noteq> None \<Longrightarrow> \<exists>n'. setInput k v n = Inr n'"
  by (auto simp: setInput_def split: option.splits)






subsection \<open>Outcomes of the patch steps\<close>





subsection \<open>One tick of the loop\<close>

lemma completedAt_cases:
  "\<not> completedAt r \<longleftrightarrow>
     r = None \<or> (\<exists>pr. r = Some pr \<and> status pr = None) \<or>
     (\<exists>pr st. r = Some pr \<and> status pr = Some st \<and> \<not> completed st)"
  by (auto simp: completedAt_def split: option.splits)

lemma checkStatus_Continue:
  "\<not> completedAt r \<Longrightarrow> checkStatus wd apiUrl r = ([], Continue)"
  by (auto simp: completedAt_def checkStatus_def split: option.splits)


lemma checkStatus_error:
  "r = Some pr \<Longrightarrow> status pr = Some st \<Longrightarrow> completed st \<Longrightarrow> status_str st = ''error'' \<Longrightarrow>
     checkStatus wd apiUrl r = ([], Finished (Inl GenerationFailed))"
  by (simp add: checkStatus_def)

lemma filter_isVideo_withUrl:
  "filter (\<lambda>output. isVideoName (filename output)) (map (withUrl apiUrl) ms) =
   map (withUrl apiUrl) (filter (\<lambda>m. isVideoName (filename m)) ms)"
  by (induction ms) (auto simp: withUrl_def)

lemma resolveOutputs_eq:
  "resolveOutputs apiUrl outs =
     (if filter keptKind (candidates outs) = [] then Inl NoMediaOutputs
      else (case filter (\<lambda>m. isVideoName (filename m)) (filter keptKind (candidates outs)) of
              [] \<Rightarrow> Inl NoVideoOutputs
            | m # _ \<Rightarrow> Inr (withUrl apiUrl m)))"
  by (simp add: resolveOutputs_def mediaOutputs_def filter_isVideo_withUrl split: list.splits)

lemma resolveOutputs_errors:
  "resolveOutputs apiUrl outs = Inl e \<Longrightarrow> e = NoMediaOutputs \<or> e = NoVideoOutputs"
  by (auto simp: resolveOutputs_eq split: list.splits if_splits)


lemma checkStatus_trace:
  "filter isUpload (fst (checkStatus wd apiUrl r)) = []"
  by (auto simp: checkStatus_def split: option.splits sum.splits)

lemma checkStatus_mime:
  "checkStatus wd apiUrl r = (rs, Finished (Inr v)) \<Longrightarrow>
     res_mimeType v = fst (mimeTypeFor (res_fileName v)) \<and>
     res_fileExtension v = snd (mimeTypeFor (res_fileName v))"
  by (auto simp: checkStatus_def videoResult_def split: option.splits sum.splits if_splits)

lemma checkStatus_resolved:
  assumes "status pr = Some st" and "completed st" and "status_str st \<noteq> ''error''"
  shows "checkStatus wd apiUrl (Some pr) =
     (case resolveOutputs apiUrl (outputs pr) of
        Inl e \<Rightarrow> ([], Finished (Inl e))
      | Inr videoOutput \<Rightarrow>
          ([GetView (url videoOutput)],
           Finished (if fst (view wd (url videoOutput)) = 404 then Inl OutputNotFound
                     else Inr (videoResult videoOutput (snd (view wd (url videoOutput))) st))))"
  using assms by (simp add: checkStatus_def)

subsection \<open>The loop\<close>

text \<open>The defining equation of the loop is used by hand, one unfolding at a time.\<close>

lemmas pollLoop_unfold = pollLoop.simps

declare pollLoop.simps [simp del]

lemma pollLoop_step:
  assumes "int attempts < maxAttempts"
    and "checkStatus wd apiUrl (history wd attempts) = (rs, Continue)"
  shows "pollLoop wd apiUrl promptId maxAttempts attempts =
     (GetHistory (apiUrl @ ''/history/'' @ promptId) # rs @
        fst (pollLoop wd apiUrl promptId maxAttempts (Suc attempts)),
      snd (pollLoop wd apiUrl promptId maxAttempts (Suc attempts)))"
  by (subst pollLoop_unfold) (simp add: assms split: prod.splits)

lemma pollLoop_stop:
  assumes "int attempts < maxAttempts"
    and "checkStatus wd apiUrl (history wd attempts) = (rs, Finished x)"
  shows "pollLoop wd apiUrl promptId maxAttempts attempts =
     (GetHistory (apiUrl @ ''/history/'' @ promptId) # rs, x)"
  by (subst pollLoop_unfold) (simp add: assms)

lemma pollLoop_exit:
  assumes "\<not> int attempts < maxAttempts"
  shows "pollLoop wd apiUrl promptId maxAttempts attempts = ([], Inl GenerationTimeout)"
  by (subst pollLoop_unfold) (simp add: assms)

lemma pollLoop_run:
  assumes "\<forall>j. a \<le> j \<and> j < k \<longrightarrow> \<not> completedAt (history wd j)"
    and "a \<le> k"
  shows "pollLoop wd apiUrl pid m a =
     (if int k \<le> m then
        (replicate (k - a) (GetHistory (apiUrl @ ''/history/'' @ pid)) @ fst (pollLoop wd apiUrl pid m k),
         snd (pollLoop wd apiUrl pid m k))
      else (replicate (nat (m - int a)) (GetHistory (apiUrl @ ''/history/'' @ pid)), Inl GenerationTimeout))"
  using assms
proof (induction "k - a" arbitrary: a)
  case 0
  then have "a = k" by simp
  then show ?case
    by (auto simp: pollLoop_unfold [of wd apiUrl pid m k])
next
  case (Suc d)
  then have ak: "a < k" and d: "d = k - Suc a" by simp_all
  from Suc.prems ak have nc: "\<not> completedAt (history wd a)" by simp
  have IH: "pollLoop wd apiUrl pid m (Suc a) =
     (if int k \<le> m then
        (replicate (k - Suc a) (GetHistory (apiUrl @ ''/history/'' @ pid)) @ fst (pollLoop wd apiUrl pid m k),
         snd (pollLoop wd apiUrl pid m k))
      else (replicate (nat (m - int (Suc a))) (GetHistory (apiUrl @ ''/history/'' @ pid)), Inl GenerationTimeout))"
    using Suc.hyps(1) [OF d] Suc.prems ak by simp
  show ?case
  proof (cases "int a < m")
    case True
    have rep: "nat (m - int a) = Suc (nat (m - int (Suc a)))" using True by simp
    have rep2: "k - a = Suc (k - Suc a)" using ak by simp
    show ?thesis
      by (subst pollLoop_unfold) (simp add: True checkStatus_Continue [OF nc] IH rep rep2)
  next
    case False
    with ak show ?thesis
      by (subst pollLoop_unfold) simp
  qed
qed


lemma statusQueries_replicate:
  "statusQueries (replicate n (GetHistory u)) = n"
  by (simp add: statusQueries_def)



lemma pollLoop_trace_mime:
  "filter isUpload (fst (pollLoop wd apiUrl pid m a)) = [] \<and>
   (\<forall>v. snd (pollLoop wd apiUrl pid m a) = Inr v \<longrightarrow>
      res_mimeType v = fst (mimeTypeFor (res_fileName v)) \<and>
      res_fileExtension v = snd (mimeTypeFor (res_fileName v)))"
proof (induction wd apiUrl pid m a rule: pollLoop.induct)
  case (1 wd apiUrl promptId maxAttempts attempts)
  show ?case
  proof (cases "int attempts < maxAttempts")
    case False
    then show ?thesis by (simp add: pollLoop_exit)
  next
    case True
    obtain rs t where cs: "checkStatus wd apiUrl (history wd attempts) = (rs, t)"
      by (cases "checkStatus wd apiUrl (history wd attempts)")
    from checkStatus_trace [of wd apiUrl "history wd attempts"] cs
    have rs: "filter isUpload rs = []" by simp
    show ?thesis
    proof (cases t)
      case Continue
      note IH = "1.IH" [OF True cs [symmetric] Continue]
      from cs Continue have "checkStatus wd apiUrl (history wd attempts) = (rs, Continue)"
        by simp
      from pollLoop_step [OF True this] IH rs show ?thesis
        by simp
    next
      case (Finished x)
      with cs have f: "checkStatus wd apiUrl (history wd attempts) = (rs, Finished x)"
        by simp
      from pollLoop_stop [OF True f] checkStatus_mime [of wd apiUrl "history wd attempts" rs] f rs
      show ?thesis
        by simp
    qed
  qed
qed

subsection \<open>File name endings\<close>





subsection \<open>The phases of the execution\<close>

lemma submitAndPoll_trace_mime:
  "filter isUpload (fst (submitAndPoll wd apiUrl tmo w)) = [] \<and>
   (\<forall>v. snd (submitAndPoll wd apiUrl tmo w) = Inr v \<longrightarrow>
      res_mimeType v = fst (mimeTypeFor (res_fileName v)) \<and>
      res_fileExtension v = snd (mimeTypeFor (res_fileName v)))"
proof (cases "prompt_id wd w")
  case None
  then show ?thesis by (simp add: submitAndPoll_def)
next
  case (Some promptId)
  show ?thesis
  proof (cases "promptId = []")
    case True
    with Some show ?thesis by (simp add: submitAndPoll_def)
  next
    case False
    obtain rs r where pl: "pollLoop wd apiUrl promptId (60 * tmo) 0 = (rs, r)"
      by (cases "pollLoop wd apiUrl promptId (60 * tmo) 0")
    with pollLoop_trace_mime [of wd apiUrl promptId "60 * tmo" 0] Some False
    show ?thesis by (simp add: submitAndPoll_def)
  qed
qed


lemma patchAndRun_trace_mime:
  "filter isUpload (fst (patchAndRun wd apiUrl ps imageInfo audioInfo)) = [] \<and>
   (\<forall>v. snd (patchAndRun wd apiUrl ps imageInfo audioInfo) = Inr v \<longrightarrow>
      res_mimeType v = fst (mimeTypeFor (res_fileName v)) \<and>
      res_fileExtension v = snd (mimeTypeFor (res_fileName v)))"
  using submitAndPoll_trace_mime [of wd apiUrl "timeout ps"]
  by (auto simp: patchAndRun_def split: workflow_json.splits prod.splits sum.splits)


lemma prepareImage_trace: "filter isUpload (fst (prepareImage wd ps b)) = []"
  by (auto simp: prepareImage_def split: option.splits)

lemma uploadAudio_trace:
  "fst (uploadAudio wd apiUrl nm b) = [] \<or>
   (\<exists>buf. fst (uploadAudio wd apiUrl nm b) =
      [PostUpload (apiUrl @ ''/upload/image'') (uploadForm buf ''input.mp3'')])"
  by (auto simp: uploadAudio_def uploadBuffer_def split: option.splits)


lemma prepareImage_audio_name [simp]:
  "prepareImage wd (ps\<lparr>audioBinaryPropertyName := nm\<rparr>) b = prepareImage wd ps b"
  by (simp add: prepareImage_def)

lemma patchAndRun_audio_name [simp]:
  "patchAndRun wd apiUrl (ps\<lparr>audioBinaryPropertyName := nm\<rparr>) imageInfo audioInfo =
   patchAndRun wd apiUrl ps imageInfo audioInfo"
  by (simp add: patchAndRun_def split: workflow_json.splits prod.splits sum.splits)

lemma uploadsOf_simps:
  "uploadsOf [] = []"
  "uploadsOf (GetSystemStats u # rs) = uploadsOf rs"
  "uploadsOf (PostUpload u form # rs) = PostUpload u form # uploadsOf rs"
  "uploadsOf (rs @ rs') = uploadsOf rs @ uploadsOf rs'"
  by (simp_all add: uploadsOf_def)

lemma execute_cases:
  obtains (noImage) rs1 e where "prepareImage wd ps b = (rs1, Inl e)"
      "execute wd apiUrl ps b = (GetSystemStats (apiUrl @ ''/system_stats'') # rs1, Inl e)"
  | (noAudio) rs1 imageBuffer rs3 e where "prepareImage wd ps b = (rs1, Inr imageBuffer)"
      "uploadAudio wd apiUrl (audioBinaryPropertyName ps) b = (rs3, Inl e)"
      "execute wd apiUrl ps b =
         (GetSystemStats (apiUrl @ ''/system_stats'') # rs1 @
            [PostUpload (apiUrl @ ''/upload/image'') (uploadForm imageBuffer ''input.png'')] @ rs3,
          Inl e)"
  | (run) rs1 imageBuffer rs3 audioInfo where "prepareImage wd ps b = (rs1, Inr imageBuffer)"
      "uploadAudio wd apiUrl (audioBinaryPropertyName ps) b = (rs3, Inr audioInfo)"
      "execute wd apiUrl ps b =
         (GetSystemStats (apiUrl @ ''/system_stats'') # rs1 @
            [PostUpload (apiUrl @ ''/upload/image'') (uploadForm imageBuffer ''input.png'')] @ rs3 @
            fst (patchAndRun wd apiUrl ps (uploaded wd (uploadForm imageBuffer ''input.png''))
                   audioInfo),
          snd (patchAndRun wd apiUrl ps (uploaded wd (uploadForm imageBuffer ''input.png''))
                 audioInfo))"
proof -
  obtain rs1 r1 where p: "prepareImage wd ps b = (rs1, r1)"
    by (cases "prepareImage wd ps b")
  obtain rs3 r3 where a: "uploadAudio wd apiUrl (audioBinaryPropertyName ps) b = (rs3, r3)"
    by (cases "uploadAudio wd apiUrl (audioBinaryPropertyName ps) b")
  show thesis
  proof (cases r1)
    case (Inl e)
    with p have "execute wd apiUrl ps b = (GetSystemStats (apiUrl @ ''/system_stats'') # rs1, Inl e)"
      by (simp add: execute_def)
    with p Inl show thesis by (intro noImage) simp_all
  next
    case (Inr imageBuffer)
    note img = this
    show thesis
    proof (cases r3)
      case (Inl e)
      with p img a have "execute wd apiUrl ps b =
         (GetSystemStats (apiUrl @ ''/system_stats'') # rs1 @
            [PostUpload (apiUrl @ ''/upload/image'') (uploadForm imageBuffer ''input.png'')] @ rs3,
          Inl e)"
        by (simp add: execute_def uploadBuffer_def)
      with p img a Inl show thesis by (intro noAudio) simp_all
    next
      case (Inr audioInfo)
      with p img a have "execute wd apiUrl ps b =
         (GetSystemStats (apiUrl @ ''/system_stats'') # rs1 @
            [PostUpload (apiUrl @ ''/upload/image'') (uploadForm imageBuffer ''input.png'')] @ rs3 @
            fst (patchAndRun wd apiUrl ps (uploaded wd (uploadForm imageBuffer ''input.png''))
                   audioInfo),
          snd (patchAndRun wd apiUrl ps (uploaded wd (uploadForm imageBuffer ''input.png''))
                 audioInfo))"
        by (simp add: execute_def uploadBuffer_def split: prod.splits)
      with p img a Inr show thesis by (intro run) simp_all
    qed
  qed
qed



subsection \<open>The concrete inputs\<close>

lemma exampleGraph_nth:
  "length exampleGraph = 3"
  "isLoadImageNode (snd (exampleGraph ! 1))"
  "\<not> isLoadImageNode (snd (exampleGraph ! 0))"
  "\<not> isLoadImageNode (snd (exampleGraph ! 2))"
  by (simp_all add: exampleGraph_def isLoadImageNode_def inputValue_def)



lemma noLoaderGraph_nth:
  "length noLoaderGraph = 2"
  "\<not> isLoadImageNode (snd (noLoaderGraph ! 0))"
  "\<not> isLoadImageNode (snd (noLoaderGraph ! 1))"
  "\<not> isLoadAudioNode (snd (noLoaderGraph ! 0))"
  "\<not> isLoadAudioNode (snd (noLoaderGraph ! 1))"
  by (simp_all add: noLoaderGraph_def isLoadImageNode_def isLoadAudioNode_def inputValue_def)


lemma errorWorld_history:
  "history errorWorld 0 = None"
  "history errorWorld 1 = Some \<lparr>status = None, outputs = []\<rparr>"
  "history errorWorld 2 =
     Some \<lparr>status = Some \<lparr>completed = False, status_str = ''running''\<rparr>, outputs = []\<rparr>"
  "history errorWorld 3 = Some errorRecord"
  by (simp_all add: errorWorld_def pendingWorld_def)

lemma kept_examples:
  "filter keptKind (candidates pngThenWebp) = [pngFile, webpFile]"
  "filter keptKind (candidates pngOnly) = [pngFile]"
  "filter keptKind (candidates []) = []"
  "isVideoName (filename webpFile)"
  "\<not> isVideoName (filename pngFile)"
  by (simp_all add: candidates_def nodeMedia_def pngThenWebp_def pngOnly_def keptKind_def
      pngFile_def webpFile_def isVideoName_def endsWith_def)


lemma demo_checkStatus:
  "checkStatus demoWorld ''http://h'' (history demoWorld 0) = ([], Continue)"
  "checkStatus demoWorld ''http://h'' (history demoWorld 1) =
     ([GetView ''http://h/view?filename=result.webp&subfolder=&type=output''],
      Finished (Inr \<lparr>res_mimeType = ''image/webp'', res_fileExtension = ''webp'',
                     res_fileName = ''result.webp'', res_data = [82, 73, 70, 70],
                     res_status = \<lparr>completed = True, status_str = ''success''\<rparr>\<rparr>))"
  by (simp_all add: checkStatus_def demoWorld_def successRecord_def resolveOutputs_def
      mediaOutputs_def candidates_def nodeMedia_def keptKind_def withUrl_def isVideoName_def
      endsWith_def videoResult_def mimeTypeFor_def)

lemma demo_pollLoop:
  "pollLoop demoWorld ''http://h'' ''abc'' (60 * 1) 0 =
     ([GetHistory ''http://h/history/abc'', GetHistory ''http://h/history/abc'',
       GetView ''http://h/view?filename=result.webp&subfolder=&type=output''],
      Inr \<lparr>res_mimeType = ''image/webp'', res_fileExtension = ''webp'',
            res_fileName = ''result.webp'', res_data = [82, 73, 70, 70],
            res_status = \<lparr>completed = True, status_str = ''success''\<rparr>\<rparr>)"
proof -
  have s1: "pollLoop demoWorld ''http://h'' ''abc'' (60 * 1) (Suc 0) =
     (GetHistory (''http://h'' @ ''/history/'' @ ''abc'') #
        [GetView ''http://h/view?filename=result.webp&subfolder=&type=output''],
      Inr \<lparr>res_mimeType = ''image/webp'', res_fileExtension = ''webp'',
            res_fileName = ''result.webp'', res_data = [82, 73, 70, 70],
            res_status = \<lparr>completed = True, status_str = ''success''\<rparr>\<rparr>)"
    using demo_checkStatus(2) by (intro pollLoop_stop) simp_all
  have "pollLoop demoWorld ''http://h'' ''abc'' (60 * 1) 0 =
     (GetHistory (''http://h'' @ ''/history/'' @ ''abc'') # [] @
        fst (pollLoop demoWorld ''http://h'' ''abc'' (60 * 1) (Suc 0)),
      snd (pollLoop demoWorld ''http://h'' ''abc'' (60 * 1) (Suc 0)))"
    using demo_checkStatus(1) by (intro pollLoop_step) simp_all
  with s1 show ?thesis by simp
qed

lemma demo_patch:
  "patchWorkflow imageHandle None imageOnlyGraph =
     (Inr (), [(''3'', \<lparr>inputs = Some [(''image'', JStr ''input (1).png'')],
                        class_type = ''LoadImage'', meta_title = None\<rparr>)])"
  "patchWorkflow imageHandle (Some imageHandle) exampleGraph =
     (Inr (),
      [(''3'', \<lparr>inputs = Some [(''seed'', JNum 7)], class_type = ''LoadImage'',
              meta_title = Some ''no image key''\<rparr>),
      (''7'', \<lparr>inputs = Some [(''image'', JStr ''input (1).png''), (''upload'', JStr ''image'')],
              class_type = ''LoadImage'', meta_title = None\<rparr>),
      (''9'', \<lparr>inputs = Some [(''filename'', JStr ''input (1).png'')], class_type = ''LoadAudio'',
              meta_title = None\<rparr>)])"
  by (simp_all add: patchWorkflow_def patchImage_def patchAudio_def updateNode_def
      setInput_def setAudioInput_def isLoadImageNode_def isLoadAudioNode_def inputValue_def
      imageOnlyGraph_def exampleGraph_def imageHandle_def)

lemma demo_execute:
  "execute demoWorld ''http://h'' demoParams None =
     ([GetSystemStats ''http://h/system_stats'',
       PostUpload ''http://h/upload/image'' (uploadForm [1, 2, 3] ''input.png''),
       PostPrompt ''http://h/prompt''
         [(''3'', \<lparr>inputs = Some [(''image'', JStr ''input (1).png'')],
                  class_type = ''LoadImage'', meta_title = None\<rparr>)],
       GetHistory ''http://h/history/abc'', GetHistory ''http://h/history/abc'',
       GetView ''http://h/view?filename=result.webp&subfolder=&type=output''],
      Inr \<lparr>res_mimeType = ''image/webp'', res_fileExtension = ''webp'',
            res_fileName = ''result.webp'', res_data = [82, 73, 70, 70],
            res_status = \<lparr>completed = True, status_str = ''success''\<rparr>\<rparr>)"
proof -
  have u: "uploaded demoWorld form = imageHandle" "prompt_id demoWorld w = Some ''abc''"
    "fromBase64 demoWorld s = [1, 2, 3]" for form w s
    by (simp_all add: demoWorld_def)
  show ?thesis
    by (simp add: execute_def prepareImage_def uploadBuffer_def uploadAudio_def
        patchAndRun_def submitAndPoll_def demoParams_def u demo_patch(1) demo_pollLoop [simplified])
qed

lemma audio_execute:
  "execute demoWorld ''http://h'' audioParams demoBinary =
     ([GetSystemStats ''http://h/system_stats'',
       PostUpload ''http://h/upload/image'' (uploadForm [1, 2] ''input.png''),
       PostUpload ''http://h/upload/image'' (uploadForm [3, 4] ''input.mp3''),
       PostPrompt ''http://h/prompt''
      [(''3'', \<lparr>inputs = Some [(''seed'', JNum 7)], class_type = ''LoadImage'',
              meta_title = Some ''no image key''\<rparr>),
      (''7'', \<lparr>inputs = Some [(''image'', JStr ''input (1).png''), (''upload'', JStr ''image'')],
              class_type = ''LoadImage'', meta_title = None\<rparr>),
      (''9'', \<lparr>inputs = Some [(''filename'', JStr ''input (1).png'')], class_type = ''LoadAudio'',
              meta_title = None\<rparr>)],
       GetHistory ''http://h/history/abc'', GetHistory ''http://h/history/abc'',
       GetView ''http://h/view?filename=result.webp&subfolder=&type=output''],
      Inr \<lparr>res_mimeType = ''image/webp'', res_fileExtension = ''webp'',
            res_fileName = ''result.webp'', res_data = [82, 73, 70, 70],
            res_status = \<lparr>completed = True, status_str = ''success''\<rparr>\<rparr>)"
proof -
  have u: "uploaded demoWorld form = imageHandle" "prompt_id demoWorld w = Some ''abc''"
    for form w
    by (simp_all add: demoWorld_def)
  have b: "binaryProperty demoBinary ''data'' =
      Some \<lparr>data = [1, 2], mimeType = Some ''image/png'', fileName = Some ''cat.png''\<rparr>"
    "binaryProperty demoBinary ''audio'' =
      Some \<lparr>data = [3, 4], mimeType = Some ''audio/mpeg'', fileName = Some ''song.wav''\<rparr>"
    by (simp_all add: binaryProperty_def demoBinary_def)
  show ?thesis
    by (simp add: execute_def prepareImage_def uploadBuffer_def uploadAudio_def
        patchAndRun_def submitAndPoll_def audioParams_def u b startsWith_def
        demo_patch(2) demo_pollLoop [simplified])
qed

section \<open>Properties of the orchestration core\<close>

subsection \<open>Patching the image node\<close>

text \<open>
  C1. Let the graph have exactly one node that the image predicate accepts (class type
  \<^verbatim>\<open>LoadImage\<close> and an \<^verbatim>\<open>image\<close> input that is defined), at position \<open>i\<close>. Then the
  image patch succeeds; in the patched graph that node keeps its identifier, class type
  and title, its \<^verbatim>\<open>image\<close> input is the \<^verbatim>\<open>name\<close> field of the handle the upload
  returned (whatever file name the upload was asked for), its other inputs are as
  before, and every other node of the graph is the node it was.
\<close>

theorem patchImage_unique_node:
  assumes "i < length w" and "isLoadImageNode (snd (w ! i))"
    and "\<forall>j<length w. j \<noteq> i \<longrightarrow> \<not> isLoadImageNode (snd (w ! j))"
  shows "\<exists>w'. patchImage imageInfo w = (Inr (), w') \<and> length w' = length w \<and>
           fst (w' ! i) = fst (w ! i) \<and>
           class_type (snd (w' ! i)) = class_type (snd (w ! i)) \<and>
           meta_title (snd (w' ! i)) = meta_title (snd (w ! i)) \<and>
           inputValue (snd (w' ! i)) ''image'' = Some (JStr (name imageInfo)) \<and>
           (\<forall>k. k \<noteq> ''image'' \<longrightarrow> inputValue (snd (w' ! i)) k = inputValue (snd (w ! i)) k) \<and>
           (\<forall>j<length w. j \<noteq> i \<longrightarrow> w' ! j = w ! j)"
proof -
  from assms have fi: "findIndex isLoadImageNode (map snd w) = Some i"
    by (intro findIndex_unique) auto
  from assms(2) have "inputs (snd (w ! i)) \<noteq> None"
    by (simp add: isLoadImageNode_def)
  then obtain n' where n': "setInput ''image'' (JStr (name imageInfo)) (snd (w ! i)) = Inr n'"
    using setInput_defined by blast
  let ?w' = "w[i := (fst (w ! i), n')]"
  have p: "patchImage imageInfo w = (Inr (), ?w')"
    by (simp add: patchImage_def fi updateNode_def n')
  from inputValue_setInput [OF n'] setInput_fields [OF n'] assms(1) p
  show ?thesis by auto
qed

text \<open>On the example graph, whose second node is the only one to patch, with a handle
  named \<^verbatim>\<open>input (1).png\<close>.\<close>

theorem patchImage_unique_node_witness:
  "isLoadImageNode (snd (exampleGraph ! 1)) \<and>
   \<not> isLoadImageNode (snd (exampleGraph ! 0)) \<and>
   \<not> isLoadImageNode (snd (exampleGraph ! 2)) \<and>
   fst (patchImage imageHandle exampleGraph) = Inr () \<and>
   inputValue (snd (snd (patchImage imageHandle exampleGraph) ! 1)) ''image'' =
     Some (JStr ''input (1).png'') \<and>
   inputValue (snd (snd (patchImage imageHandle exampleGraph) ! 1)) ''upload'' =
     Some (JStr ''image'') \<and>
   snd (patchImage imageHandle exampleGraph) ! 0 = exampleGraph ! 0 \<and>
   snd (patchImage imageHandle exampleGraph) ! 2 = exampleGraph ! 2"
proof -
  have h1: "1 < length exampleGraph"
    by (simp add: exampleGraph_nth)
  have h3: "\<forall>j<length exampleGraph. j \<noteq> 1 \<longrightarrow> \<not> isLoadImageNode (snd (exampleGraph ! j))"
  proof (intro allI impI)
    fix j assume "j < length exampleGraph" "j \<noteq> 1"
    then have "j = 0 \<or> j = 2" by (auto simp: exampleGraph_nth)
    then show "\<not> isLoadImageNode (snd (exampleGraph ! j))"
      using exampleGraph_nth by auto
  qed
  from patchImage_unique_node [OF h1 exampleGraph_nth(2) h3, of imageHandle]
  obtain w' where w': "patchImage imageHandle exampleGraph = (Inr (), w')"
    "inputValue (snd (w' ! 1)) ''image'' = Some (JStr (name imageHandle))"
    "\<forall>k. k \<noteq> ''image'' \<longrightarrow> inputValue (snd (w' ! 1)) k = inputValue (snd (exampleGraph ! 1)) k"
    "\<forall>j<length exampleGraph. j \<noteq> 1 \<longrightarrow> w' ! j = exampleGraph ! j"
    by blast
  have up: "inputValue (snd (exampleGraph ! 1)) ''upload'' = Some (JStr ''image'')"
    by (simp add: exampleGraph_def inputValue_def)
  from w'(3) up have "inputValue (snd (w' ! 1)) ''upload'' = Some (JStr ''image'')"
    by simp
  moreover from w'(4) have "w' ! 0 = exampleGraph ! 0" "w' ! 2 = exampleGraph ! 2"
    by (simp_all add: exampleGraph_nth)
  ultimately show ?thesis
    using w'(1,2) exampleGraph_nth by (simp add: imageHandle_def)
qed

text \<open>
  C5. If no node of the graph has class type \<^verbatim>\<open>LoadImage\<close> together with a defined
  \<^verbatim>\<open>image\<close> input, the patch fails with \<open>MissingImageNode\<close>, with or without an audio
  handle, and the graph it leaves behind is the graph it was given.
\<close>

theorem patchWorkflow_no_image_node:
  assumes "\<forall>j<length w. \<not> isLoadImageNode (snd (w ! j))"
  shows "patchImage imageInfo w = (Inl MissingImageNode, w) \<and>
         patchWorkflow imageInfo audioInfo w = (Inl MissingImageNode, w)"
proof -
  have "\<not> isLoadImageNode (snd x)" if "x \<in> set w" for x
    using that assms by (metis in_set_conv_nth)
  then have "findIndex isLoadImageNode (map snd w) = None"
    by (simp add: findIndex_None_iff)
  then show ?thesis
    by (simp add: patchImage_def patchWorkflow_def)
qed

text \<open>On a graph whose LoadImage node has no \<^verbatim>\<open>image\<close> input, without and with an
  audio handle.\<close>

theorem patchWorkflow_no_image_node_witness:
  "class_type (snd (noLoaderGraph ! 0)) = ''LoadImage'' \<and>
   \<not> isLoadImageNode (snd (noLoaderGraph ! 0)) \<and>
   \<not> isLoadImageNode (snd (noLoaderGraph ! 1)) \<and>
   patchWorkflow imageHandle None noLoaderGraph = (Inl MissingImageNode, noLoaderGraph) \<and>
   patchWorkflow imageHandle (Some audioHandle) noLoaderGraph =
     (Inl MissingImageNode, noLoaderGraph)"
proof -
  have h: "\<forall>j<length noLoaderGraph. \<not> isLoadImageNode (snd (noLoaderGraph ! j))"
  proof (intro allI impI)
    fix j assume "j < length noLoaderGraph"
    then have "j = 0 \<or> j = 1" by (auto simp: noLoaderGraph_nth)
    then show "\<not> isLoadImageNode (snd (noLoaderGraph ! j))"
      using noLoaderGraph_nth by auto
  qed
  have "class_type (snd (noLoaderGraph ! 0)) = ''LoadImage''"
    by (simp add: noLoaderGraph_def)
  with patchWorkflow_no_image_node [OF h, of imageHandle None]
    patchWorkflow_no_image_node [OF h, of imageHandle "Some audioHandle"]
    noLoaderGraph_nth
  show ?thesis by simp
qed

subsection \<open>Patching the audio node\<close>





subsection \<open>The poll loop\<close>



text \<open>
  C4. Let status answer number \<open>k\<close>, below the cap, be a record whose status is
  completed with the label \<^verbatim>\<open>error\<close>, every earlier answer being no record, a record
  without status, or a status that is not completed. Then the loop polls through the
  earlier answers, fails with \<open>GenerationFailed\<close> at answer \<open>k\<close>, and its trace is
  the \<open>k + 1\<close> status queries up to that one: no request follows.
\<close>

theorem pollLoop_error_stops:
  assumes "int k < maxAttempts"
    and "\<forall>j<k. history wd j = None \<or> (\<exists>pr. history wd j = Some pr \<and> status pr = None) \<or>
            (\<exists>pr st. history wd j = Some pr \<and> status pr = Some st \<and> \<not> completed st)"
    and "history wd k = Some pr" and "status pr = Some st"
    and "completed st" and "status_str st = ''error''"
  shows "pollLoop wd apiUrl pid maxAttempts 0 =
           (replicate (Suc k) (GetHistory (apiUrl @ ''/history/'' @ pid)), Inl GenerationFailed) \<and>
         statusQueries (fst (pollLoop wd apiUrl pid maxAttempts 0)) = Suc k"
proof -
  from assms(2) have nc: "\<forall>j. 0 \<le> j \<and> j < k \<longrightarrow> \<not> completedAt (history wd j)"
    by (simp add: completedAt_cases)
  have at_k: "pollLoop wd apiUrl pid maxAttempts k =
      ([GetHistory (apiUrl @ ''/history/'' @ pid)], Inl GenerationFailed)"
    using assms(1) checkStatus_error [OF assms(3-6), of wd apiUrl]
    by (subst pollLoop_unfold) simp
  from pollLoop_run [OF nc, of apiUrl pid maxAttempts] assms(1) at_k
  have "pollLoop wd apiUrl pid maxAttempts 0 =
      (replicate k (GetHistory (apiUrl @ ''/history/'' @ pid)) @
         [GetHistory (apiUrl @ ''/history/'' @ pid)], Inl GenerationFailed)"
    by simp
  then have "pollLoop wd apiUrl pid maxAttempts 0 =
      (replicate (Suc k) (GetHistory (apiUrl @ ''/history/'' @ pid)), Inl GenerationFailed)"
    by (simp add: replicate_append_same)
  then show ?thesis
    by (simp add: statusQueries_def)
qed

text \<open>On a backend that answers no record, no status, not completed, and then the error.\<close>

theorem pollLoop_error_stops_witness:
  "history errorWorld 0 = None \<and>
   history errorWorld 1 = Some \<lparr>status = None, outputs = []\<rparr> \<and>
   history errorWorld 2 =
     Some \<lparr>status = Some \<lparr>completed = False, status_str = ''running''\<rparr>, outputs = []\<rparr> \<and>
   history errorWorld 3 = Some errorRecord \<and>
   status errorRecord = Some \<lparr>completed = True, status_str = ''error''\<rparr> \<and>
   pollLoop errorWorld ''http://h'' ''abc'' 60 0 =
     (replicate 4 (GetHistory ''http://h/history/abc''), Inl GenerationFailed) \<and>
   statusQueries (fst (pollLoop errorWorld ''http://h'' ''abc'' 60 0)) = 4"
proof -
  have early: "\<forall>j<3. history errorWorld j = None \<or>
      (\<exists>pr. history errorWorld j = Some pr \<and> status pr = None) \<or>
      (\<exists>pr st. history errorWorld j = Some pr \<and> status pr = Some st \<and> \<not> completed st)"
  proof (intro allI impI)
    fix j :: nat assume "j < 3"
    then have "j = 0 \<or> j = 1 \<or> j = 2" by auto
    then show "history errorWorld j = None \<or>
      (\<exists>pr. history errorWorld j = Some pr \<and> status pr = None) \<or>
      (\<exists>pr st. history errorWorld j = Some pr \<and> status pr = Some st \<and> \<not> completed st)"
      using errorWorld_history by auto
  qed
  have st: "status errorRecord = Some \<lparr>completed = True, status_str = ''error''\<rparr>"
    by (simp add: errorRecord_def)
  from pollLoop_error_stops [OF _ early errorWorld_history(4) st,
      where maxAttempts = 60 and apiUrl = "''http://h''" and pid = "''abc''"]
    errorWorld_history st
  show ?thesis by (simp add: statusQueries_replicate)
qed

subsection \<open>Resolving the output\<close>

text \<open>
  C2, as stated, takes both the image-like and the gif-like entries of every node into
  the candidate list. The source takes \<^verbatim>\<open>nodeOutput.images || nodeOutput.gifs || []\<close>:
  for a node that has an images list, its gifs are not candidates. On a node whose
  images are \<^verbatim>\<open>[a.png]\<close> and whose gifs are \<^verbatim>\<open>[b.webp]\<close>, both of kind \<^verbatim>\<open>output\<close>, the
  resolution as stated selects \<^verbatim>\<open>b.webp\<close>, and the source fails with
  \<open>NoVideoOutputs\<close>.
\<close>

theorem resolveOutputs_images_hide_gifs:
  "resolveAsStated ''http://h'' pngAndGifsWebp = Inr (withUrl ''http://h'' webpFile) \<and>
   resolveOutputs ''http://h'' pngAndGifsWebp = Inl NoVideoOutputs"
  by (simp add: resolveOutputs_def resolveAsStated_def pngAndGifsWebp_def mediaOutputs_def
      candidates_def nodeMedia_def allEntries_def keptKind_def withUrl_def isVideoName_def
      endsWith_def pngFile_def webpFile_def)

text \<open>
  C2, amended. The candidate list is, node by node in the order of the outputs, the
  node's images if it has an images list and otherwise its gifs if it has a gifs list.
  Of the candidates those of kind \<^verbatim>\<open>output\<close> or \<^verbatim>\<open>temp\<close> are kept, and the resolution
  fails with \<open>NoMediaOutputs\<close> exactly when none is kept. It fails with
  \<open>NoVideoOutputs\<close> exactly when some candidate is kept and no kept candidate has a
  file name ending in \<^verbatim>\<open>.webp\<close>, \<^verbatim>\<open>.mp4\<close> or \<^verbatim>\<open>.gif\<close>. Otherwise it selects the first
  kept candidate with such a file name, with its view URL added. These are its only
  failures. On a status that is completed with a label other than \<^verbatim>\<open>error\<close>, a failure
  of the resolution is the failure of the tick, and the candidate selected is the one
  the tick fetches.
\<close>

theorem resolveOutputs_first_video:
  "candidates outs =
     concat (map (\<lambda>(nodeId, out).
        case images out of Some xs \<Rightarrow> xs
        | None \<Rightarrow> (case gifs out of Some ys \<Rightarrow> ys | None \<Rightarrow> [])) outs) \<and>
   (resolveOutputs apiUrl outs = Inl NoMediaOutputs \<longleftrightarrow> filter keptKind (candidates outs) = []) \<and>
   (resolveOutputs apiUrl outs = Inl NoVideoOutputs \<longleftrightarrow>
      filter keptKind (candidates outs) \<noteq> [] \<and>
      filter (\<lambda>m. isVideoName (filename m)) (filter keptKind (candidates outs)) = []) \<and>
   (\<forall>m rest. filter (\<lambda>m. isVideoName (filename m)) (filter keptKind (candidates outs)) = m # rest
      \<longrightarrow> resolveOutputs apiUrl outs = Inr (withUrl apiUrl m)) \<and>
   (\<forall>e. resolveOutputs apiUrl outs = Inl e \<longrightarrow> e = NoMediaOutputs \<or> e = NoVideoOutputs) \<and>
   (\<forall>wd pr st. status pr = Some st \<and> completed st \<and> status_str st \<noteq> ''error'' \<longrightarrow>
      (\<forall>e. resolveOutputs apiUrl (outputs pr) = Inl e \<longrightarrow>
         checkStatus wd apiUrl (Some pr) = ([], Finished (Inl e))) \<and>
      (\<forall>v. resolveOutputs apiUrl (outputs pr) = Inr v \<longrightarrow>
         fst (checkStatus wd apiUrl (Some pr)) = [GetView (url v)])) \<and>
   isVideoName f = (endsWith f ''.webp'' \<or> endsWith f ''.mp4'' \<or> endsWith f ''.gif'') \<and>
   keptKind img = (type img = ''output'' \<or> type img = ''temp'')"
proof -
  have c: "candidates outs =
     concat (map (\<lambda>(nodeId, out).
        case images out of Some xs \<Rightarrow> xs
        | None \<Rightarrow> (case gifs out of Some ys \<Rightarrow> ys | None \<Rightarrow> [])) outs)"
    by (simp add: candidates_def nodeMedia_def case_prod_unfold comp_def)
  have v: "\<forall>m rest. filter (\<lambda>m. isVideoName (filename m)) (filter keptKind (candidates outs)) = m # rest
      \<longrightarrow> resolveOutputs apiUrl outs = Inr (withUrl apiUrl m)"
  proof (intro allI impI)
    fix m rest
    assume *: "filter (\<lambda>m. isVideoName (filename m)) (filter keptKind (candidates outs)) = m # rest"
    have "filter keptKind (candidates outs) \<noteq> []"
    proof
      assume "filter keptKind (candidates outs) = []"
      with * show False by (simp del: filter_filter)
    qed
    with * show "resolveOutputs apiUrl outs = Inr (withUrl apiUrl m)"
      by (simp add: resolveOutputs_eq)
  qed
  have n: "resolveOutputs apiUrl outs = Inl NoMediaOutputs \<longleftrightarrow> filter keptKind (candidates outs) = []"
    by (simp add: resolveOutputs_eq split: list.splits)
  have nv: "resolveOutputs apiUrl outs = Inl NoVideoOutputs \<longleftrightarrow>
      filter keptKind (candidates outs) \<noteq> [] \<and>
      filter (\<lambda>m. isVideoName (filename m)) (filter keptKind (candidates outs)) = []"
    by (simp add: resolveOutputs_eq split: list.splits)
  have e: "\<forall>e. resolveOutputs apiUrl outs = Inl e \<longrightarrow> e = NoMediaOutputs \<or> e = NoVideoOutputs"
    using resolveOutputs_errors by blast
  have t: "\<forall>wd pr st. status pr = Some st \<and> completed st \<and> status_str st \<noteq> ''error'' \<longrightarrow>
      (\<forall>e. resolveOutputs apiUrl (outputs pr) = Inl e \<longrightarrow>
         checkStatus wd apiUrl (Some pr) = ([], Finished (Inl e))) \<and>
      (\<forall>v. resolveOutputs apiUrl (outputs pr) = Inr v \<longrightarrow>
         fst (checkStatus wd apiUrl (Some pr)) = [GetView (url v)])"
    by (simp add: checkStatus_resolved)
  from c n nv v e t show ?thesis
    by (simp only: isVideoName_def keptKind_def simp_thms)
qed

text \<open>On the outputs \<^verbatim>\<open>[a.png, b.webp]\<close> of one images list, on \<^verbatim>\<open>[a.png]\<close> alone, and
  on no outputs.\<close>

theorem resolveOutputs_first_video_witness:
  "filter keptKind (candidates pngThenWebp) = [pngFile, webpFile] \<and>
   resolveOutputs ''http://h'' pngThenWebp = Inr (withUrl ''http://h'' webpFile) \<and>
   filter keptKind (candidates pngOnly) = [pngFile] \<and>
   resolveOutputs ''http://h'' pngOnly = Inl NoVideoOutputs \<and>
   resolveOutputs ''http://h'' [] = Inl NoMediaOutputs"
proof -
  have v: "filter (\<lambda>m. isVideoName (filename m)) (filter keptKind (candidates pngThenWebp)) =
      webpFile # []"
    by (simp add: kept_examples)
  have n: "filter (\<lambda>m. isVideoName (filename m)) (filter keptKind (candidates pngOnly)) = []"
    by (simp add: kept_examples)
  from resolveOutputs_first_video [of pngThenWebp "''http://h''"] v
  have a: "resolveOutputs ''http://h'' pngThenWebp = Inr (withUrl ''http://h'' webpFile)"
    by blast
  from resolveOutputs_first_video [of pngOnly "''http://h''"]
  have "resolveOutputs ''http://h'' pngOnly = Inl NoVideoOutputs \<longleftrightarrow>
      filter keptKind (candidates pngOnly) \<noteq> [] \<and>
      filter (\<lambda>m. isVideoName (filename m)) (filter keptKind (candidates pngOnly)) = []"
    by blast
  with n have b: "resolveOutputs ''http://h'' pngOnly = Inl NoVideoOutputs"
    by (simp add: kept_examples(2))
  from resolveOutputs_first_video [of "[]" "''http://h''"]
  have "resolveOutputs ''http://h'' [] = Inl NoMediaOutputs \<longleftrightarrow>
      filter keptKind (candidates []) = []"
    by blast
  then have c: "resolveOutputs ''http://h'' [] = Inl NoMediaOutputs"
    by (simp add: kept_examples(3))
  from a b c kept_examples show ?thesis by simp
qed



subsection \<open>Uploads\<close>

text \<open>
  C9. In every execution the upload requests are none (the image could not be
  prepared), the upload of the image, or the upload of the image followed by that of
  the audio. Each goes to \<^verbatim>\<open>/upload/image\<close>; the image is sent under the file name
  \<^verbatim>\<open>input.png\<close>, the audio under \<^verbatim>\<open>input.mp3\<close>, whatever the parameters and the
  attached binary data are; and the form of an upload is the bytes under the field
  \<^verbatim>\<open>image\<close>, then \<^verbatim>\<open>subfolder\<close> with the empty string, then \<^verbatim>\<open>overwrite\<close> with
  \<^verbatim>\<open>true\<close>.
\<close>

theorem execute_uploads:
  "(uploadsOf (fst (execute wd apiUrl ps b)) = [] \<or>
    (\<exists>imageBuffer. uploadsOf (fst (execute wd apiUrl ps b)) =
       [PostUpload (apiUrl @ ''/upload/image'') (uploadForm imageBuffer ''input.png'')]) \<or>
    (\<exists>imageBuffer audioBuffer. uploadsOf (fst (execute wd apiUrl ps b)) =
       [PostUpload (apiUrl @ ''/upload/image'') (uploadForm imageBuffer ''input.png''),
        PostUpload (apiUrl @ ''/upload/image'') (uploadForm audioBuffer ''input.mp3'')])) \<and>
   uploadForm buf fname =
     [(''image'', FilePart buf fname), (''subfolder'', TextPart []),
      (''overwrite'', TextPart ''true'')]"
proof
  show "uploadForm buf fname =
     [(''image'', FilePart buf fname), (''subfolder'', TextPart []),
      (''overwrite'', TextPart ''true'')]"
    by (simp only: uploadForm_def)
  let ?ups = "uploadsOf (fst (execute wd apiUrl ps b))"
  let ?png = "\<lambda>buf. PostUpload (apiUrl @ ''/upload/image'') (uploadForm buf ''input.png'')"
  let ?mp3 = "\<lambda>buf. PostUpload (apiUrl @ ''/upload/image'') (uploadForm buf ''input.mp3'')"
  have audio: "uploadsOf (fst (uploadAudio wd apiUrl nm b)) = [] \<or>
      (\<exists>buf. uploadsOf (fst (uploadAudio wd apiUrl nm b)) = [?mp3 buf])" for nm
    using uploadAudio_trace [of wd apiUrl nm b] by (auto simp only: uploadsOf_simps)
  have image: "uploadsOf (fst (prepareImage wd ps b)) = []"
    using prepareImage_trace [of wd ps b] by (simp only: uploadsOf_def)
  show "?ups = [] \<or> (\<exists>imageBuffer. ?ups = [?png imageBuffer]) \<or>
      (\<exists>imageBuffer audioBuffer. ?ups = [?png imageBuffer, ?mp3 audioBuffer])"
  proof (cases rule: execute_cases [of wd ps b apiUrl])
    case (noImage rs1 e)
    with image have "?ups = []" by (simp add: uploadsOf_simps)
    then show ?thesis ..
  next
    case (noAudio rs1 imageBuffer rs3 e)
    with image have "?ups = ?png imageBuffer # uploadsOf rs3"
      by (simp add: uploadsOf_simps)
    with audio [of "audioBinaryPropertyName ps"] noAudio(2) show ?thesis
      by (simp only: fst_conv) blast
  next
    case (run rs1 imageBuffer rs3 audioInfo)
    have "uploadsOf (fst (patchAndRun wd apiUrl ps
             (uploaded wd (uploadForm imageBuffer ''input.png'')) audioInfo)) = []"
      using patchAndRun_trace_mime [of wd apiUrl ps
          "uploaded wd (uploadForm imageBuffer ''input.png'')" audioInfo]
      by (simp only: uploadsOf_def)
    with run image have "?ups = ?png imageBuffer # uploadsOf rs3"
      by (simp add: uploadsOf_simps)
    with audio [of "audioBinaryPropertyName ps"] run(2) show ?thesis
      by (simp only: fst_conv) blast
  qed
qed

text \<open>On an execution with an audio property and on one without.\<close>

theorem execute_uploads_witness:
  "uploadsOf (fst (execute demoWorld ''http://h'' audioParams demoBinary)) =
     [PostUpload ''http://h/upload/image''
        [(''image'', FilePart [1, 2] ''input.png''), (''subfolder'', TextPart []),
         (''overwrite'', TextPart ''true'')],
      PostUpload ''http://h/upload/image''
        [(''image'', FilePart [3, 4] ''input.mp3''), (''subfolder'', TextPart []),
         (''overwrite'', TextPart ''true'')]] \<and>
   uploadsOf (fst (execute demoWorld ''http://h'' demoParams None)) =
     [PostUpload ''http://h/upload/image''
        [(''image'', FilePart [1, 2, 3] ''input.png''), (''subfolder'', TextPart []),
         (''overwrite'', TextPart ''true'')]]"
proof -
  note form = execute_uploads [of demoWorld "''http://h''" audioParams demoBinary,
      THEN conjunct2]
  have "uploadsOf (fst (execute demoWorld ''http://h'' audioParams demoBinary)) =
     [PostUpload ''http://h/upload/image'' (uploadForm [1, 2] ''input.png''),
      PostUpload ''http://h/upload/image'' (uploadForm [3, 4] ''input.mp3'')]"
    by (simp add: audio_execute uploadsOf_def)
  moreover have "uploadsOf (fst (execute demoWorld ''http://h'' demoParams None)) =
     [PostUpload ''http://h/upload/image'' (uploadForm [1, 2, 3] ''input.png'')]"
    by (simp add: demo_execute uploadsOf_def)
  ultimately show ?thesis
    by (simp only: form)
qed



end
